theory Spec2Isabelle
  imports Main
begin

section \<open>Values handed over by the framework\<close>

text \<open>
  The two code files of the site are \<^verbatim>\<open>app/[[...mdxPath]]/page.jsx\<close> and
  \<^verbatim>\<open>app/layout.jsx\<close>. Both are glue between Next.js, Nextra and the content
  files: what they compute themselves is a template string, two object literals and
  three JSX trees. Everything they import from a package (\<^verbatim>\<open>importPage\<close>,
  \<^verbatim>\<open>getPageMap\<close>, the font loaders, the clock) is a parameter of the model.

  A metadata field of a content file is a string when the file gives one and
  \<^verbatim>\<open>undefined\<close> otherwise.
\<close>

datatype js_value = Undefined | Str string

text \<open>
  \<^verbatim>\<open>`${v}`\<close>: a template literal converts the value it interpolates to a string.
\<close>

fun ToString :: "js_value \<Rightarrow> string" where
  "ToString Undefined = ''undefined''"
| "ToString (Str s) = s"

text \<open>
  The \<^verbatim>\<open>metadata\<close> export of a content file, and the object
  \<^verbatim>\<open>generateMetadata\<close> returns: the two properties the code reads and writes.
\<close>

record metadata =
  title :: js_value
  description :: js_value

text \<open>
  \<^verbatim>\<open>params\<close> of the route \<^verbatim>\<open>[[...mdxPath]]\<close>: the path segments
  captured from the URL, \<^verbatim>\<open>undefined\<close> (here \<open>None\<close>) when the optional
  catch-all captured nothing.
\<close>

record route_params =
  mdxPath :: "string list option"

text \<open>
  A settled promise is either rejected with a reason or fulfilled with a value;
  \<^verbatim>\<open>await\<close> throws the reason or yields the value.
\<close>

type_synonym ('e, 'a) promise = "'e + 'a"

text \<open>
  \<^verbatim>\<open>props\<close> of the page: \<^verbatim>\<open>props.params\<close> is a promise; \<open>others\<close>
  stands for every other property of the object, which the code never reads and
  hands on with \<^verbatim>\<open>{...props}\<close>. Values of type \<open>'x\<close> are owned by the framework
  and opaque to this code.
\<close>

record ('e, 'x) page_props =
  params :: "('e, route_params) promise"
  others :: 'x

text \<open>
  What \<^verbatim>\<open>importPage\<close> resolves to: the compiled content component (the
  \<^verbatim>\<open>default\<close> export, bound to \<^verbatim>\<open>MDXContent\<close>), the table of contents
  and the metadata.
\<close>

record 'x page_module =
  MDXContent :: 'x
  toc :: 'x
  metadata :: metadata

section \<open>React elements\<close>

datatype 'x component =
    Host string
  | Banner
  | Navbar
  | Footer
  | Layout
  | Wrapper
  | Content 'x

text \<open>
  A JSX expression evaluates to an element: its component, its attributes in the
  order written, and its children. A component is not called when the element is
  built.
\<close>

datatype 'x node =
    Element "'x component" "'x jsx_attr list" "'x node list"
  | Text string
  | Number int
and 'x jsx_attr =
    Attr string "'x jsx_value"
  | Spread 'x
and 'x jsx_value =
    PString string
  | PTrue
  | PNode "'x node"
  | PMetadata metadata
  | PParams route_params
  | POpaque 'x

section \<open>Asynchronous calls into the framework\<close>

text \<open>
  An \<^verbatim>\<open>async\<close> function runs against the state \<open>'s\<close> of the framework and
  settles: \<open>Inl e\<close> is rejection with \<open>e\<close>, \<open>Inr v\<close> fulfilment with \<open>v\<close>.
\<close>

type_synonym ('s, 'e, 'a) async = "'s \<Rightarrow> ('e, 'a) promise \<times> 's"

section \<open>The dynamic content page\<close>


text \<open>
  \<^verbatim>\<open>generateMetadata\<close> awaits \<^verbatim>\<open>props.params\<close>, awaits
  \<^verbatim>\<open>importPage(params.mdxPath)\<close> and builds the head metadata from the
  \<^verbatim>\<open>metadata\<close> of the result. Neither \<^verbatim>\<open>await\<close> stands in a
  \<^verbatim>\<open>try\<close>: a rejection ends the function with the same reason.
\<close>

definition generateMetadata ::
  "(string list option \<Rightarrow> ('s, 'e, 'x page_module) async) \<Rightarrow>
   ('e, 'x) page_props \<Rightarrow> ('s, 'e, metadata) async" where
  "generateMetadata importPage props s =
     (case params props of
        Inl e \<Rightarrow> (Inl e, s)
      | Inr ps \<Rightarrow>
          (case importPage (mdxPath ps) s of
             (Inl e, s') \<Rightarrow> (Inl e, s')
           | (Inr result, s') \<Rightarrow>
               (Inr \<lparr>title = Str (ToString (title (metadata result)) @
                                   '' | A Comprehensive Look at All React Hooks''),
                     description = description (metadata result)\<rparr>, s')))"

text \<open>
  \<^verbatim>\<open>Page\<close> resolves the content the same way and returns the element
  \<^verbatim>\<open><Wrapper toc={toc} metadata={metadata}><MDXContent {...props} params={params} /></Wrapper>\<close>.
  \<^verbatim>\<open>Wrapper\<close> is the \<^verbatim>\<open>wrapper\<close> entry of the MDX components, bound once
  when the module is evaluated; the element names it and does not call it. In the
  content element \<^verbatim>\<open>params\<close> is the awaited value, which replaces the promise
  the spread would copy.
\<close>

definition Page ::
  "(string list option \<Rightarrow> ('s, 'e, 'x page_module) async) \<Rightarrow>
   ('e, 'x) page_props \<Rightarrow> ('s, 'e, 'x node) async" where
  "Page importPage props s =
     (case params props of
        Inl e \<Rightarrow> (Inl e, s)
      | Inr ps \<Rightarrow>
          (case importPage (mdxPath ps) s of
             (Inl e, s') \<Rightarrow> (Inl e, s')
           | (Inr result, s') \<Rightarrow>
               (Inr (Element Wrapper
                       [Attr ''toc'' (POpaque (toc result)),
                        Attr ''metadata'' (PMetadata (metadata result))]
                       [Element (Content (MDXContent result))
                          [Spread (others props), Attr ''params'' (PParams ps)]
                          []]), s')))"

section \<open>The root layout\<close>

text \<open>
  The object a font loader of \<^verbatim>\<open>next/font/google\<close> returns; the layout reads
  its \<^verbatim>\<open>variable\<close> property. The loader's argument is the options object
  \<^verbatim>\<open>{variable, subsets}\<close>.
\<close>

datatype font_options = FontOptions string "string list"

record font =
  variable :: string

text \<open>
  The constants \<^verbatim>\<open>layout.jsx\<close> binds when the module is evaluated and
  \<^verbatim>\<open>RootLayout\<close> reads. (The module also exports a fixed \<^verbatim>\<open>metadata\<close>
  object for the framework; no function of the module reads it.)
\<close>

record 'x layout_module =
  geistSans :: font
  geistMono :: font
  banner :: "'x node"
  navbar :: "'x node"
  footer :: "'x node"

text \<open>
  Evaluating the module: \<open>Geist\<close> and \<open>Geist_Mono\<close> are the font loaders, \<open>year\<close>
  is what \<^verbatim>\<open>new Date().getFullYear()\<close> gives at that moment. Text outside
  ASCII is written as the UTF-8 bytes of the source file: the party popper of the
  banner, and the copyright sign \<^verbatim>\<open>&copy;\<close> of the footer.
\<close>

definition layout_jsx ::
  "(font_options \<Rightarrow> font) \<Rightarrow> (font_options \<Rightarrow> font) \<Rightarrow> int \<Rightarrow> 'x layout_module" where
  "layout_jsx Geist Geist_Mono year =
     \<lparr>geistSans = Geist (FontOptions ''--font-geist-sans'' [''latin'']),
      geistMono = Geist_Mono (FontOptions ''--font-geist-mono'' [''latin'']),
      banner =
        Element Banner [Attr ''storageKey'' (PString ''1234567890'')]
          [Text (''Get the offical eBook '' @ [CHR 0xF0, CHR 0x9F, CHR 0x8E, CHR 0x89])],
      navbar =
        Element Navbar
          [Attr ''logo''
             (PNode (Element (Host ''b'') [] [Text ''A Comprehensive Look At All React Hooks'']))]
          [],
      footer =
        Element Footer []
          [Text ''MIT '', Number year, Text ([CHR 0x20, CHR 0xC2, CHR 0xA9] @ '' Thomas Sankara'')]\<rparr>"

text \<open>
  \<^verbatim>\<open>RootLayout({ children })\<close> awaits \<^verbatim>\<open>getPageMap()\<close> while it builds the
  attributes of \<^verbatim>\<open><Layout>\<close>; the \<^verbatim>\<open>await\<close> stands in no
  \<^verbatim>\<open>try\<close>.
\<close>

definition RootLayout ::
  "'x layout_module \<Rightarrow> ('s, 'e, 'x) async \<Rightarrow> 'x node \<Rightarrow> ('s, 'e, 'x node) async" where
  "RootLayout m getPageMap children s =
     (case getPageMap s of
        (Inl e, s') \<Rightarrow> (Inl e, s')
      | (Inr pageMap, s') \<Rightarrow>
          (Inr (Element (Host ''html'')
                  [Attr ''lang'' (PString ''en''),
                   Attr ''dir'' (PString ''ltr''),
                   Attr ''suppressHydrationWarning'' PTrue]
                  [Element (Host ''body'')
                     [Attr ''className''
                        (PString (variable (geistSans m) @ '' '' @ variable (geistMono m) @
                                  '' antialiased''))]
                     [Element Layout
                        [Attr ''banner'' (PNode (banner m)),
                         Attr ''navbar'' (PNode (navbar m)),
                         Attr ''pageMap'' (POpaque pageMap),
                         Attr ''docsRepositoryBase''
                           (PString ''https://github.com/sankthomas/a-comprehensive-look-at-all-react-hooks''),
                         Attr ''footer'' (PNode (footer m))]
                        [children]]]), s'))"

section \<open>Reading an element tree\<close>

text \<open>
  Every element of a tree: the tree itself, the elements passed as attribute values
  (\<^verbatim>\<open>banner={banner}\<close>, \<^verbatim>\<open>logo={<b>...</b>}\<close>) and the children, to any
  depth.
\<close>

primrec subnodes :: "'x node \<Rightarrow> 'x node list"
  and attr_nodes :: "'x jsx_attr \<Rightarrow> 'x node list"
  and value_nodes :: "'x jsx_value \<Rightarrow> 'x node list" where
  "subnodes (Element c as cs) =
     Element c as cs # concat (map attr_nodes as) @ concat (map subnodes cs)"
| "subnodes (Text t) = [Text t]"
| "subnodes (Number n) = [Number n]"
| "attr_nodes (Attr k v) = value_nodes v"
| "attr_nodes (Spread x) = []"
| "value_nodes (PString t) = []"
| "value_nodes PTrue = []"
| "value_nodes (PNode n) = subnodes n"
| "value_nodes (PMetadata md) = []"
| "value_nodes (PParams ps) = []"
| "value_nodes (POpaque x) = []"


text \<open>
  The metadata objects handed to the elements of a tree as attribute values.
\<close>

primrec node_metadata :: "'x node \<Rightarrow> metadata list"
  and attr_metadata :: "'x jsx_attr \<Rightarrow> metadata list"
  and value_metadata :: "'x jsx_value \<Rightarrow> metadata list" where
  "node_metadata (Element c as cs) =
     concat (map attr_metadata as) @ concat (map node_metadata cs)"
| "node_metadata (Text t) = []"
| "node_metadata (Number n) = []"
| "attr_metadata (Attr k v) = value_metadata v"
| "attr_metadata (Spread x) = []"
| "value_metadata (PString t) = []"
| "value_metadata PTrue = []"
| "value_metadata (PNode n) = node_metadata n"
| "value_metadata (PMetadata md) = [md]"
| "value_metadata (PParams ps) = []"
| "value_metadata (POpaque x) = []"





section \<open>The framework around the code\<close>

text \<open>
  \<^verbatim>\<open>Promise.resolve\<close> and \<^verbatim>\<open>Promise.reject\<close> as asynchronous calls that
  leave the state alone.
\<close>

definition resolved :: "'a \<Rightarrow> ('s, 'e, 'a) async" where
  "resolved v s = (Inr v, s)"

definition rejected :: "'e \<Rightarrow> ('s, 'e, 'a) async" where
  "rejected e s = (Inl e, s)"

text \<open>
  A framework function wrapped so that every call appends its argument to a list
  kept beside the state: what the code passes to the function can then be read off.
\<close>

definition recording ::
  "('a \<Rightarrow> ('s, 'e, 'b) async) \<Rightarrow> 'a \<Rightarrow> ('a list \<times> 's, 'e, 'b) async" where
  "recording f a = (\<lambda>(calls, s). case f a s of (r, s') \<Rightarrow> (r, (calls @ [a], s')))"

section \<open>Sample inputs\<close>

text \<open>
  A lookup that knows one page, \<^verbatim>\<open>content/usecontext.mdx\<close> (its heading is the
  title, it gives no description), rejects every other path, and counts the lookups
  it has served in the state.
\<close>

definition sample_page :: "string page_module" where
  "sample_page =
     \<lparr>MDXContent = ''content/usecontext.mdx'', toc = ''headings of usecontext'',
      metadata = \<lparr>title = Str ''useContext'', description = Undefined\<rparr>\<rparr>"

definition sample_importPage :: "string list option \<Rightarrow> (nat, string, string page_module) async" where
  "sample_importPage path served =
     (if path = Some [''usecontext'']
      then (Inr sample_page, Suc served)
      else (Inl ''not found'', Suc served))"

definition sample_props :: "(string, string) page_props" where
  "sample_props = \<lparr>params = Inr \<lparr>mdxPath = Some [''usecontext'']\<rparr>, others = ''searchParams''\<rparr>"


definition sample_font :: "font_options \<Rightarrow> font" where
  "sample_font options = (case options of FontOptions name subsets \<Rightarrow> \<lparr>variable = ''font'' @ name\<rparr>)"

section \<open>Outcomes of the three functions\<close>

lemma generateMetadata_fulfilled:
  assumes "params props = Inr ps" and "importPage (mdxPath ps) s = (Inr result, s')"
  shows "generateMetadata importPage props s =
           (Inr \<lparr>title = Str (ToString (title (metadata result)) @
                               '' | A Comprehensive Look at All React Hooks''),
                 description = description (metadata result)\<rparr>, s')"
  using assms by (simp add: generateMetadata_def)

lemma generateMetadata_rejected:
  assumes "params props = Inr ps" and "importPage (mdxPath ps) s = (Inl e, s')"
  shows "generateMetadata importPage props s = (Inl e, s')"
  using assms by (simp add: generateMetadata_def)

lemma Page_fulfilled:
  assumes "params props = Inr ps" and "importPage (mdxPath ps) s = (Inr result, s')"
  shows "Page importPage props s =
           (Inr (Element Wrapper
                   [Attr ''toc'' (POpaque (toc result)),
                    Attr ''metadata'' (PMetadata (metadata result))]
                   [Element (Content (MDXContent result))
                      [Spread (others props), Attr ''params'' (PParams ps)]
                      []]), s')"
  using assms by (simp add: Page_def)

lemma Page_rejected:
  assumes "params props = Inr ps" and "importPage (mdxPath ps) s = (Inl e, s')"
  shows "Page importPage props s = (Inl e, s')"
  using assms by (simp add: Page_def)

lemma sample_params: "params sample_props = Inr \<lparr>mdxPath = Some [''usecontext'']\<rparr>"
  by (simp add: sample_props_def)

lemma sample_lookup:
  "sample_importPage (mdxPath \<lparr>mdxPath = Some [''usecontext'']\<rparr>) n = (Inr sample_page, Suc n)"
  by (simp add: sample_importPage_def)

lemma RootLayout_fulfilled:
  assumes "getPageMap s = (Inr pageMap, s')"
  shows "RootLayout m getPageMap children s =
     (Inr (Element (Host ''html'')
             [Attr ''lang'' (PString ''en''),
              Attr ''dir'' (PString ''ltr''),
              Attr ''suppressHydrationWarning'' PTrue]
             [Element (Host ''body'')
                [Attr ''className''
                   (PString (variable (geistSans m) @ '' '' @ variable (geistMono m) @
                             '' antialiased''))]
                [Element Layout
                   [Attr ''banner'' (PNode (banner m)),
                    Attr ''navbar'' (PNode (navbar m)),
                    Attr ''pageMap'' (POpaque pageMap),
                    Attr ''docsRepositoryBase''
                      (PString ''https://github.com/sankthomas/a-comprehensive-look-at-all-react-hooks''),
                    Attr ''footer'' (PNode (footer m))]
                   [children]]]), s')"
  using assms by (simp add: RootLayout_def)

lemma RootLayout_rejected:
  assumes "getPageMap s = (Inl e, s')"
  shows "RootLayout m getPageMap children s = (Inl e, s')"
  using assms by (simp add: RootLayout_def)



lemma recording_apply:
  "recording f a (calls, s) = (fst (f a s), calls @ [a], snd (f a s))"
  by (simp add: recording_def split: prod.splits)

lemma Page_recording:
  assumes "params props = Inr ps"
  shows "Page (recording importPage) props (calls, s) =
           (fst (Page importPage props s), calls @ [mdxPath ps], snd (importPage (mdxPath ps) s))"
  using assms by (simp add: Page_def recording_apply split: prod.splits sum.splits)

lemma generateMetadata_recording:
  assumes "params props = Inr ps"
  shows "generateMetadata (recording importPage) props (calls, s) =
           (fst (generateMetadata importPage props s), calls @ [mdxPath ps],
            snd (importPage (mdxPath ps) s))"
  using assms by (simp add: generateMetadata_def recording_apply split: prod.splits sum.splits)

section \<open>Decimal numerals are unambiguous\<close>







section \<open>Head metadata\<close>

text \<open>
  C1. For every content page the lookup resolves, \<^verbatim>\<open>generateMetadata\<close> is
  fulfilled with a title that is the content's own metadata title, as the template
  literal writes it, followed by the fixed suffix
  \<^verbatim>\<open> | A Comprehensive Look at All React Hooks\<close>.
\<close>

theorem generateMetadata_title:
  assumes "params props = Inr ps" and "importPage (mdxPath ps) s = (Inr result, s')"
  shows "\<exists>head. generateMetadata importPage props s = (Inr head, s') \<and>
           title head = Str (ToString (title (metadata result)) @
                             '' | A Comprehensive Look at All React Hooks'')"
  using assms by (simp add: generateMetadata_fulfilled)

theorem generateMetadata_title_witness:
  "params sample_props = Inr \<lparr>mdxPath = Some [''usecontext'']\<rparr> \<and>
   sample_importPage (Some [''usecontext'']) 0 = (Inr sample_page, 1) \<and>
   title (metadata sample_page) = Str ''useContext'' \<and>
   (\<exists>head. generateMetadata sample_importPage sample_props 0 = (Inr head, 1) \<and>
      title head = Str ''useContext | A Comprehensive Look at All React Hooks'')"
  using generateMetadata_title
    [where props = sample_props and importPage = sample_importPage and s = 0 and s' = 1
       and ps = "\<lparr>mdxPath = Some [''usecontext'']\<rparr>" and result = sample_page]
    sample_params sample_lookup [of 0]
  by (simp add: sample_page_def)

text \<open>
  C2. For every content page the lookup resolves, the description
  \<^verbatim>\<open>generateMetadata\<close> returns is the content's metadata description itself,
  whatever it is.
\<close>

theorem generateMetadata_description:
  assumes "params props = Inr ps" and "importPage (mdxPath ps) s = (Inr result, s')"
  shows "\<exists>head. generateMetadata importPage props s = (Inr head, s') \<and>
           description head = description (metadata result)"
  using assms by (simp add: generateMetadata_fulfilled)

theorem generateMetadata_description_witness:
  "params sample_props = Inr \<lparr>mdxPath = Some [''usecontext'']\<rparr> \<and>
   sample_importPage (Some [''usecontext'']) 0 = (Inr sample_page, 1) \<and>
   description (metadata sample_page) = Undefined \<and>
   (\<exists>head. generateMetadata sample_importPage sample_props 0 = (Inr head, 1) \<and>
      description head = Undefined)"
  using generateMetadata_description
    [where props = sample_props and importPage = sample_importPage and s = 0 and s' = 1
       and ps = "\<lparr>mdxPath = Some [''usecontext'']\<rparr>" and result = sample_page]
    sample_params sample_lookup [of 0]
  by (simp add: sample_page_def)

section \<open>The content page\<close>



text \<open>
  C6. Whatever path segments list the router captured for a request,
  \<^verbatim>\<open>Page\<close> and \<^verbatim>\<open>generateMetadata\<close> each call \<^verbatim>\<open>importPage\<close> once,
  with that very list: with a lookup that records its arguments, the record grows
  by the one entry \<^verbatim>\<open>params.mdxPath\<close>, and the state is the one that call left.
\<close>

theorem importPage_receives_captured_path:
  assumes "params props = Inr ps"
  shows "snd (Page (recording importPage) props (calls, s)) =
           (calls @ [mdxPath ps], snd (importPage (mdxPath ps) s)) \<and>
         snd (generateMetadata (recording importPage) props (calls, s)) =
           (calls @ [mdxPath ps], snd (importPage (mdxPath ps) s))"
  using assms by (simp add: Page_recording generateMetadata_recording)

theorem importPage_receives_captured_path_witness:
  "params sample_props = Inr \<lparr>mdxPath = Some [''usecontext'']\<rparr> \<and>
   snd (Page (recording sample_importPage) sample_props ([], 0)) = ([Some [''usecontext'']], 1) \<and>
   snd (generateMetadata (recording sample_importPage) sample_props ([], 0)) =
     ([Some [''usecontext'']], 1)"
  using importPage_receives_captured_path
    [where props = sample_props and ps = "\<lparr>mdxPath = Some [''usecontext'']\<rparr>"
       and importPage = sample_importPage and calls = "[]" and s = 0]
  by (simp add: sample_params sample_importPage_def)

text \<open>
  C10. For one request \<^verbatim>\<open>generateMetadata\<close> and \<^verbatim>\<open>Page\<close> each call
  \<^verbatim>\<open>importPage\<close> once with the same path segments list. When the outcome of the
  lookup for that list does not depend on the state it runs in, the two agree,
  whenever each of them runs. Either both are rejected with the lookup's reason, or
  there is one looked-up result for both: the head has that result's title followed
  by the suffix and that result's description, and the body is the wrapper, given
  that result's table of contents and metadata, around that result's own content
  component.
\<close>

theorem head_agrees_with_body:
  assumes "params props = Inr ps"
    and "\<forall>s s'. fst (importPage (mdxPath ps) s) = fst (importPage (mdxPath ps) s')"
  shows "fst (snd (generateMetadata (recording importPage) props (calls1, s1))) = calls1 @ [mdxPath ps] \<and>
         fst (snd (Page (recording importPage) props (calls2, s2))) = calls2 @ [mdxPath ps] \<and>
         (case fst (importPage (mdxPath ps) s1) of
            Inl e \<Rightarrow>
              fst (generateMetadata importPage props s1) = Inl e \<and>
              fst (Page importPage props s2) = Inl e
          | Inr result \<Rightarrow>
              fst (generateMetadata importPage props s1) =
                Inr \<lparr>title = Str (ToString (title (metadata result)) @
                                    '' | A Comprehensive Look at All React Hooks''),
                      description = description (metadata result)\<rparr> \<and>
              fst (Page importPage props s2) =
                Inr (Element Wrapper
                       [Attr ''toc'' (POpaque (toc result)),
                        Attr ''metadata'' (PMetadata (metadata result))]
                       [Element (Content (MDXContent result))
                          [Spread (others props), Attr ''params'' (PParams ps)]
                          []]))"
proof -
  have calls: "fst (snd (generateMetadata (recording importPage) props (calls1, s1))) = calls1 @ [mdxPath ps]"
    "fst (snd (Page (recording importPage) props (calls2, s2))) = calls2 @ [mdxPath ps]"
    using assms(1) by (simp_all add: generateMetadata_recording Page_recording)
  from assms(2) have same: "fst (importPage (mdxPath ps) s2) = fst (importPage (mdxPath ps) s1)"
    by blast
  obtain r1 s1' where one: "importPage (mdxPath ps) s1 = (r1, s1')"
    by (cases "importPage (mdxPath ps) s1")
  obtain r2 s2' where two: "importPage (mdxPath ps) s2 = (r2, s2')"
    by (cases "importPage (mdxPath ps) s2")
  from same one two have "r2 = r1" by simp
  have "case fst (importPage (mdxPath ps) s1) of
            Inl e \<Rightarrow>
              fst (generateMetadata importPage props s1) = Inl e \<and>
              fst (Page importPage props s2) = Inl e
          | Inr result \<Rightarrow>
              fst (generateMetadata importPage props s1) =
                Inr \<lparr>title = Str (ToString (title (metadata result)) @
                                    '' | A Comprehensive Look at All React Hooks''),
                      description = description (metadata result)\<rparr> \<and>
              fst (Page importPage props s2) =
                Inr (Element Wrapper
                       [Attr ''toc'' (POpaque (toc result)),
                        Attr ''metadata'' (PMetadata (metadata result))]
                       [Element (Content (MDXContent result))
                          [Spread (others props), Attr ''params'' (PParams ps)]
                          []])"
  proof (cases r1)
    case (Inl e)
    with one two \<open>r2 = r1\<close> assms(1) show ?thesis
      by (simp add: generateMetadata_rejected Page_rejected)
  next
    case (Inr result)
    with one two \<open>r2 = r1\<close> assms(1) show ?thesis
      by (simp add: generateMetadata_fulfilled Page_fulfilled)
  qed
  with calls show ?thesis by blast
qed

theorem head_agrees_with_body_witness:
  "params sample_props = Inr \<lparr>mdxPath = Some [''usecontext'']\<rparr> \<and>
   (\<forall>s s'. fst (sample_importPage (Some [''usecontext'']) s) = fst (sample_importPage (Some [''usecontext'']) s')) \<and>
   fst (snd (generateMetadata (recording sample_importPage) sample_props ([], 0))) = [Some [''usecontext'']] \<and>
   fst (snd (Page (recording sample_importPage) sample_props ([Some [''usecontext'']], 1))) =
     [Some [''usecontext''], Some [''usecontext'']] \<and>
   fst (sample_importPage (Some [''usecontext'']) 0) = Inr sample_page \<and>
   fst (generateMetadata sample_importPage sample_props 0) =
     Inr \<lparr>title = Str ''useContext | A Comprehensive Look at All React Hooks'', description = Undefined\<rparr> \<and>
   fst (Page sample_importPage sample_props 1) =
     Inr (Element Wrapper
            [Attr ''toc'' (POpaque ''headings of usecontext''),
             Attr ''metadata'' (PMetadata \<lparr>title = Str ''useContext'', description = Undefined\<rparr>)]
            [Element (Content ''content/usecontext.mdx'')
               [Spread ''searchParams'', Attr ''params'' (PParams \<lparr>mdxPath = Some [''usecontext'']\<rparr>)]
               []])"
  using head_agrees_with_body
    [where props = sample_props and ps = "\<lparr>mdxPath = Some [''usecontext'']\<rparr>"
       and importPage = sample_importPage and ?calls1.0 = "[]" and ?s1.0 = 0
       and ?calls2.0 = "[Some [''usecontext'']]" and ?s2.0 = 1]
  by (simp add: sample_params sample_importPage_def sample_page_def sample_props_def)

section \<open>The root layout\<close>

text \<open>
  C3. Whatever children the layout is given, once the page map is there
  \<^verbatim>\<open>RootLayout\<close> returns the document \<^verbatim>\<open><html><body><Layout>\<close> in which
  \<^verbatim>\<open>Layout\<close> is handed the \<^verbatim>\<open>Banner\<close> element as \<^verbatim>\<open>banner\<close>, the
  \<^verbatim>\<open>Navbar\<close> element as \<^verbatim>\<open>navbar\<close> and the \<^verbatim>\<open>Footer\<close> element as
  \<^verbatim>\<open>footer\<close>, with the page map, and has the children as its only child.
\<close>

theorem RootLayout_chrome:
  assumes "getPageMap s = (Inr pageMap, s')"
  shows "\<exists>htmlAttrs bodyAttrs.
           RootLayout (layout_jsx Geist Geist_Mono year) getPageMap children s =
             (Inr (Element (Host ''html'') htmlAttrs
                     [Element (Host ''body'') bodyAttrs
                        [Element Layout
                           [Attr ''banner''
                              (PNode (Element Banner [Attr ''storageKey'' (PString ''1234567890'')]
                                 [Text (''Get the offical eBook '' @
                                        [CHR 0xF0, CHR 0x9F, CHR 0x8E, CHR 0x89])])),
                            Attr ''navbar''
                              (PNode (Element Navbar
                                 [Attr ''logo''
                                    (PNode (Element (Host ''b'') []
                                       [Text ''A Comprehensive Look At All React Hooks'']))]
                                 [])),
                            Attr ''pageMap'' (POpaque pageMap),
                            Attr ''docsRepositoryBase''
                              (PString ''https://github.com/sankthomas/a-comprehensive-look-at-all-react-hooks''),
                            Attr ''footer''
                              (PNode (Element Footer []
                                 [Text ''MIT '', Number year,
                                  Text ([CHR 0x20, CHR 0xC2, CHR 0xA9] @ '' Thomas Sankara'')]))]
                           [children]]]), s')"
  using assms by (simp add: RootLayout_fulfilled layout_jsx_def)

theorem RootLayout_chrome_witness:
  "resolved ''page map'' (0::nat) = (Inr ''page map'' :: string + string, 0) \<and>
   (\<exists>htmlAttrs bodyAttrs.
      RootLayout (layout_jsx sample_font sample_font 2025) (resolved ''page map'')
        (Text ''page'') (0::nat) =
        (Inr (Element (Host ''html'') htmlAttrs
                [Element (Host ''body'') bodyAttrs
                   [Element Layout
                      [Attr ''banner''
                         (PNode (Element Banner [Attr ''storageKey'' (PString ''1234567890'')]
                            [Text (''Get the offical eBook '' @
                                   [CHR 0xF0, CHR 0x9F, CHR 0x8E, CHR 0x89])])),
                       Attr ''navbar''
                         (PNode (Element Navbar
                            [Attr ''logo''
                               (PNode (Element (Host ''b'') []
                                  [Text ''A Comprehensive Look At All React Hooks'']))]
                            [])),
                       Attr ''pageMap'' (POpaque ''page map''),
                       Attr ''docsRepositoryBase''
                         (PString ''https://github.com/sankthomas/a-comprehensive-look-at-all-react-hooks''),
                       Attr ''footer''
                         (PNode (Element Footer []
                            [Text ''MIT '', Number 2025,
                             Text ([CHR 0x20, CHR 0xC2, CHR 0xA9] @ '' Thomas Sankara'')]))]
                      [Text ''page'']]]) :: string + string node, 0))"
  using RootLayout_chrome
    [where getPageMap = "resolved ''page map'' :: (nat, string, string) async" and s = 0 and s' = 0
       and pageMap = "''page map''" and Geist = sample_font and Geist_Mono = sample_font
       and year = 2025 and children = "Text ''page''"]
  by (simp add: resolved_def)



section \<open>Failures\<close>

text \<open>
  C5. None of the three functions catches, retries or changes a failure. A
  rejection of \<^verbatim>\<open>props.params\<close>, of \<^verbatim>\<open>importPage\<close> or of
  \<^verbatim>\<open>getPageMap\<close> is the rejection of the function that awaited it, with the same
  reason, in the state that one failed call left.
\<close>

theorem failures_propagate:
  "(params props0 = Inl e0 \<longrightarrow>
      generateMetadata importPage props0 s = (Inl e0, s) \<and> Page importPage props0 s = (Inl e0, s)) \<and>
   (params props = Inr ps \<and> importPage (mdxPath ps) s = (Inl e, s') \<longrightarrow>
      generateMetadata importPage props s = (Inl e, s') \<and> Page importPage props s = (Inl e, s')) \<and>
   (getPageMap t = (Inl e1, t') \<longrightarrow> RootLayout m getPageMap children t = (Inl e1, t'))"
  by (simp add: generateMetadata_rejected Page_rejected RootLayout_rejected)
     (simp add: generateMetadata_def Page_def)

theorem failures_propagate_witness:
  "params \<lparr>params = Inl ''aborted'', others = ''searchParams''\<rparr> = Inl ''aborted'' \<and>
   sample_importPage (Some [''nope'']) 0 = (Inl ''not found'', 1) \<and>
   rejected ''no page map'' (0::nat) = (Inl ''no page map'' :: string + string, 0) \<and>
   generateMetadata sample_importPage \<lparr>params = Inl ''aborted'', others = ''searchParams''\<rparr> 0 =
     (Inl ''aborted'', 0) \<and>
   Page sample_importPage \<lparr>params = Inl ''aborted'', others = ''searchParams''\<rparr> 0 =
     (Inl ''aborted'', 0) \<and>
   generateMetadata sample_importPage
     \<lparr>params = Inr \<lparr>mdxPath = Some [''nope'']\<rparr>, others = ''searchParams''\<rparr> 0 =
     (Inl ''not found'', 1) \<and>
   Page sample_importPage
     \<lparr>params = Inr \<lparr>mdxPath = Some [''nope'']\<rparr>, others = ''searchParams''\<rparr> 0 =
     (Inl ''not found'', 1) \<and>
   RootLayout (layout_jsx sample_font sample_font 2025) (rejected ''no page map'')
     (Text ''page'' :: string node) (0::nat) = (Inl ''no page map'', 0)"
  using failures_propagate
    [where ?props0.0 = "\<lparr>params = Inl ''aborted'', others = ''searchParams''\<rparr>" and ?e0.0 = "''aborted''"
       and importPage = sample_importPage and s = 0
       and props = "\<lparr>params = Inr \<lparr>mdxPath = Some [''nope'']\<rparr>, others = ''searchParams''\<rparr>"
       and ps = "\<lparr>mdxPath = Some [''nope'']\<rparr>" and e = "''not found''" and s' = 1
       and getPageMap = "rejected ''no page map'' :: (nat, string, string) async" and t = 0
       and ?e1.0 = "''no page map''" and t' = 0
       and m = "layout_jsx sample_font sample_font 2025" and children = "Text ''page''"]
  by (simp add: sample_importPage_def rejected_def)

section \<open>Two renders\<close>

text \<open>
  Two renders of the same page from the same content are not always the same. The
  footer holds the year in which the module was evaluated, so the layout loaded in
  2024 and the layout loaded in 2025 return different documents for the same
  children and page map. And \<^verbatim>\<open>{...props}\<close> hands every property of
  \<^verbatim>\<open>props\<close> to the content element, so two requests for the same path whose
  other properties differ get different elements.
\<close>

theorem render_depends_on_load_year_and_props:
  "fst (RootLayout (layout_jsx sample_font sample_font 2024) (resolved ''page map'') (Text ''page'') (0::nat)) \<noteq>
     (fst (RootLayout (layout_jsx sample_font sample_font 2025) (resolved ''page map'') (Text ''page'') (0::nat))
        :: string + string node) \<and>
   fst (Page sample_importPage \<lparr>params = Inr \<lparr>mdxPath = Some [''usecontext'']\<rparr>, others = ''a''\<rparr> 0) \<noteq>
     fst (Page sample_importPage \<lparr>params = Inr \<lparr>mdxPath = Some [''usecontext'']\<rparr>, others = ''b''\<rparr> 0)"
  by (simp add: RootLayout_def resolved_def layout_jsx_def Page_def sample_importPage_def)

text \<open>
  C7, as the code has it. Two renders by the same evaluated module, with the same
  props and the same children, return the same element whenever the lookups they
  await have the same outcome, whatever else differs in the states they run in.
  Neither function keeps state of its own: the state after the render is the one
  the lookup left.
\<close>

theorem renders_agree:
  "(params props = Inr ps \<and> fst (importPage (mdxPath ps) s1) = fst (importPage' (mdxPath ps) s2) \<longrightarrow>
      fst (Page importPage props s1) = fst (Page importPage' props s2) \<and>
      snd (Page importPage props s1) = snd (importPage (mdxPath ps) s1)) \<and>
   (fst (getPageMap t1) = fst (getPageMap' t2) \<longrightarrow>
      fst (RootLayout m getPageMap children t1) = fst (RootLayout m getPageMap' children t2) \<and>
      snd (RootLayout m getPageMap children t1) = snd (getPageMap t1))"
  by (auto simp add: Page_def RootLayout_def split: prod.splits sum.splits)

theorem renders_agree_witness:
  "params sample_props = Inr \<lparr>mdxPath = Some [''usecontext'']\<rparr> \<and>
   fst (sample_importPage (Some [''usecontext'']) 0) = fst (sample_importPage (Some [''usecontext'']) 7) \<and>
   fst (Page sample_importPage sample_props 0) = fst (Page sample_importPage sample_props 7) \<and>
   snd (Page sample_importPage sample_props 0) = 1 \<and>
   fst (resolved ''page map'' (0::nat)) = (fst (resolved ''page map'' (7::nat)) :: string + string) \<and>
   fst (RootLayout (layout_jsx sample_font sample_font 2025) (resolved ''page map'') (Text ''page'') (0::nat)) =
     (fst (RootLayout (layout_jsx sample_font sample_font 2025) (resolved ''page map'') (Text ''page'') (7::nat))
        :: string + string node) \<and>
   snd (RootLayout (layout_jsx sample_font sample_font 2025)
          (resolved ''page map'' :: (nat, string, string) async) (Text ''page'') 0) = 0"
  using renders_agree
    [where props = sample_props and ps = "\<lparr>mdxPath = Some [''usecontext'']\<rparr>"
       and importPage = sample_importPage and importPage' = sample_importPage and ?s1.0 = 0 and ?s2.0 = 7
       and getPageMap = "resolved ''page map'' :: (nat, string, string) async"
       and getPageMap' = "resolved ''page map'' :: (nat, string, string) async"
       and ?t1.0 = 0 and ?t2.0 = 7
       and m = "layout_jsx sample_font sample_font 2025" and children = "Text ''page''"]
  by (simp add: sample_params sample_importPage_def resolved_def)

end
